theory Spec2Isabelle
  imports Main "HOL-Library.Word"
begin

section \<open>The base account of x/accounts: authentication of one signer\<close>

text \<open>
  This theory embeds \<^verbatim>\<open>x/accounts/defaults/base/account.go\<close>: the methods
  \<^verbatim>\<open>Authenticate\<close>, \<^verbatim>\<open>computeSignerData\<close>, \<^verbatim>\<open>getNumber\<close>,
  \<^verbatim>\<open>getTxData\<close> of \<^verbatim>\<open>Account\<close> and the function \<^verbatim>\<open>parseSignMode\<close>.

  The Go context carries the account's storage. Here the storage is an explicit value
  of type \<open>Store\<close> that every stateful function takes and returns; the rest of the
  context stays an opaque value of type \<open>'ctx\<close>, read only by the collaborators.
  A Go function returning \<^verbatim>\<open>(v, err)\<close> returns \<open>error + 'v\<close>, \<open>Inl\<close> the error.
  A run-time panic is an error value of its own, so that it is a branch of the model.
\<close>

subsection \<open>Data\<close>

type_synonym bytes = "8 word list"
type_synonym u64 = "64 word"

text \<open>
  A sign mode is the number of a protobuf enumeration
  (\<^verbatim>\<open>signingv1beta1.SignMode(single.Single.Mode)\<close> converts between two such types
  and keeps the number). A collaborator's error is its message.
\<close>

type_synonym SignMode = int
type_synonym ext_error = string

text \<open>
  The errors of the flow. \<open>Unauthorized\<close> is line 37, \<open>SequenceMismatch wanted got\<close>
  line 52, \<open>OnlySingleAccepted\<close> the error of \<^verbatim>\<open>parseSignMode\<close> (line 77),
  \<open>UnsupportedSignMode e\<close> the wrapping \<^verbatim>\<open>"unable to parse sign mode: %w"\<close> of line 57
  and the registry's answer for a mode without handler (cause \<open>NoHandler\<close>),
  \<open>SignatureInvalid\<close> line 68. \<open>Collaborator m\<close> is an error that a collaborator
  returned and that the code hands back unchanged (\<^verbatim>\<open>return nil, err\<close>).
  \<open>ErrNotFound\<close> is the storage's answer for an item that was never set.
  \<open>MalformedRequest\<close> is an error kind of the specification (section 7); no
  statement of the source produces it. \<open>PanicIndexOutOfRange\<close> is the Go run-time
  panic of a slice read outside the slice: the call does not return at all.
\<close>

datatype error =
    Unauthorized
  | SequenceMismatch nat nat
  | OnlySingleAccepted
  | NoHandler SignMode
  | UnsupportedSignMode error
  | SignatureInvalid
  | MalformedRequest
  | Collaborator ext_error
  | ErrNotFound
  | PanicIndexOutOfRange

text \<open>\<^verbatim>\<open>secp256k1.PubKey\<close> and \<^verbatim>\<open>anypb.Any\<close>.\<close>

datatype PubKey = PubKey (Key: bytes)

record Any =
  TypeUrl :: string
  Value :: bytes

text \<open>
  The request. \<^verbatim>\<open>tx.ModeInfo\<close> is a protobuf one-of: single, multi or not set.
  Of \<^verbatim>\<open>tx.SignerInfo\<close>, \<^verbatim>\<open>tx.AuthInfo\<close> and \<^verbatim>\<open>tx.Tx\<close> the records keep the
  fields that the code reads. The declarations of these types are not among the
  sources at hand; the message pointers (\<^verbatim>\<open>RawTx\<close>, \<^verbatim>\<open>Tx\<close>, \<^verbatim>\<open>AuthInfo\<close>,
  each signer-info, its \<^verbatim>\<open>ModeInfo\<close> and the inner message of a single
  descriptor) are taken to be present, and sequence numbers and the signer index are
  natural numbers.
\<close>

datatype ModeInfo =
    ModeInfo_Single SignMode
  | ModeInfo_Multi "ModeInfo list"
  | ModeInfo_Unset

record SignerInfo =
  si_ModeInfo :: ModeInfo
  si_Sequence :: nat

record AuthInfo =
  SignerInfos :: "SignerInfo list"

record Tx =
  tx_AuthInfo :: AuthInfo
  tx_Signatures :: "bytes list"

record TxRaw =
  raw_BodyBytes :: bytes
  raw_AuthInfoBytes :: bytes
  raw_Signatures :: "bytes list"

record MsgAuthenticate =
  Bundler :: string
  RawTx :: TxRaw
  Tx :: Tx
  SignerIndex :: nat

datatype MsgAuthenticateResponse = MsgAuthenticateResponse

text \<open>
  The decoded structures \<^verbatim>\<open>txv1beta1.TxBody\<close> and \<^verbatim>\<open>txv1beta1.AuthInfo\<close>, as far as
  a sign-mode handler may look at them, and \<^verbatim>\<open>signing.TxData\<close>,
  \<^verbatim>\<open>signing.SignerData\<close>, \<^verbatim>\<open>header.Info\<close>.
\<close>

record TxBody =
  Messages :: "Any list"
  Memo :: string
  body_unknownFields :: bytes

record DecodedAuthInfo =
  dec_SignerInfos :: "SignerInfo list"
  dec_unknownFields :: bytes

record TxData =
  td_Body :: TxBody
  td_AuthInfo :: DecodedAuthInfo
  td_BodyBytes :: bytes
  td_AuthInfoBytes :: bytes
  td_BodyHasUnknownNonCriticals :: bool

record SignerData =
  sd_Address :: string
  sd_ChainID :: string
  sd_AccountNumber :: u64
  sd_Sequence :: nat
  sd_PubKey :: Any

record HeaderInfo =
  ChainID :: string

subsection \<open>Storage\<close>

text \<open>
  The account's two storage items: \<^verbatim>\<open>PubKey collections.Item[secp256k1.PubKey]\<close>,
  which may never have been set, and \<^verbatim>\<open>Sequence collections.Sequence\<close>.
\<close>

record Store =
  st_PubKey :: "PubKey option"
  st_Sequence :: nat

text \<open>
  Modelled from the spec: \<^verbatim>\<open>collections.Sequence.Next\<close>, of package
  \<^verbatim>\<open>cosmossdk.io/collections\<close>, whose code is not among the sources. Section 3 and
  section 5 of the specification: the counter is monotonically increasing and never
  decreases, and it is read and then incremented in one step (fetch-and-increment); the
  specification gives the counter no width, so it does not wrap around here. The
  result is the number read.
\<close>

definition Sequence_Next :: "Store \<Rightarrow> (error + nat) \<times> Store" where
  "Sequence_Next st = (Inr (st_Sequence st), st\<lparr>st_Sequence := st_Sequence st + 1\<rparr>)"

text \<open>
  Modelled from the spec: \<^verbatim>\<open>collections.Item.Get\<close> on the public key, of the same
  package. Section 3: the account owns one public key, which this flow only reads.
  Reading an item that was never set is an error.
\<close>

definition PubKey_Get :: "Store \<Rightarrow> error + PubKey" where
  "PubKey_Get st = (case st_PubKey st of None \<Rightarrow> Inl ErrNotFound | Some pk \<Rightarrow> Inr pk)"

subsection \<open>Collaborators\<close>

text \<open>
  A sign-mode handler produces the sign-bytes for a signer and a transaction; the
  handler map holds at most one handler per sign mode.
\<close>

type_synonym 'ctx SignModeHandler = "'ctx \<Rightarrow> SignerData \<Rightarrow> TxData \<Rightarrow> ext_error + bytes"
type_synonym 'ctx HandlerMap = "SignMode \<rightharpoonup> 'ctx SignModeHandler"

text \<open>
  Modelled from the spec: \<^verbatim>\<open>signing.HandlerMap.GetSignBytes\<close>, of package
  \<^verbatim>\<open>cosmossdk.io/x/tx/signing\<close>, whose code is not among the sources. Section 4.4:
  the handler registered for the mode produces the sign-bytes for the signer data and
  the transaction data; a mode without handler is an \<open>UnsupportedSignMode\<close> error.
\<close>

definition GetSignBytes ::
  "'ctx HandlerMap \<Rightarrow> 'ctx \<Rightarrow> SignMode \<Rightarrow> SignerData \<Rightarrow> TxData \<Rightarrow> error + bytes" where
  "GetSignBytes h ctx signMode signerData txData =
     (case h signMode of
        None \<Rightarrow> Inl (UnsupportedSignMode (NoHandler signMode))
      | Some handler \<Rightarrow>
          (case handler ctx signerData txData of
             Inl m \<Rightarrow> Inl (Collaborator m)
           | Inr signBytes \<Rightarrow> Inr signBytes))"

text \<open>
  The fields of \<^verbatim>\<open>Account\<close> that are not storage items: the address codec
  (\<^verbatim>\<open>addrCodec.BytesToString\<close>), the header service
  (\<^verbatim>\<open>hs.GetHeaderInfo\<close>) and the handler map.
\<close>

record 'ctx Account =
  addrCodec :: "bytes \<Rightarrow> ext_error + string"
  hs :: "'ctx \<Rightarrow> HeaderInfo"
  signingHandlers :: "'ctx HandlerMap"

text \<open>
  The functions of other packages that the code calls, taken as parameters:
  \<^verbatim>\<open>accountstd.SenderIsAccountsModule\<close>, \<^verbatim>\<open>accountstd.Whoami\<close>,
  \<^verbatim>\<open>accountstd.QueryModule\<close> at an \<^verbatim>\<open>AccountNumberRequest\<close> (its answer is the
  \<^verbatim>\<open>Number\<close> of the response), \<^verbatim>\<open>codectypes.NewAnyWithValue\<close>, \<^verbatim>\<open>proto.Unmarshal\<close>
  at the two message types, and \<^verbatim>\<open>secp256k1.PubKey.VerifySignature\<close>.
\<close>

record 'ctx Env =
  SenderIsAccountsModule :: "'ctx \<Rightarrow> bool"
  Whoami :: "'ctx \<Rightarrow> bytes"
  QueryModule_AccountNumber :: "'ctx \<Rightarrow> string \<Rightarrow> ext_error + u64"
  NewAnyWithValue :: "PubKey \<Rightarrow> ext_error + Any"
  Unmarshal_TxBody :: "bytes \<Rightarrow> ext_error + TxBody"
  Unmarshal_AuthInfo :: "bytes \<Rightarrow> ext_error + DecodedAuthInfo"
  VerifySignature :: "PubKey \<Rightarrow> bytes \<Rightarrow> bytes \<Rightarrow> bool"

subsection \<open>The functions of account.go\<close>

text \<open>\<^verbatim>\<open>parseSignMode\<close>, lines 74 to 80: the type assertion succeeds on a single only.\<close>

fun parseSignMode :: "ModeInfo \<Rightarrow> error + SignMode" where
  "parseSignMode (ModeInfo_Single mode) = Inr mode"
| "parseSignMode info = Inl OnlySingleAccepted"

text \<open>\<^verbatim>\<open>getNumber\<close>, lines 122 to 129.\<close>

definition getNumber :: "'ctx Env \<Rightarrow> 'ctx \<Rightarrow> string \<Rightarrow> error + u64" where
  "getNumber env ctx addrStr =
     (case QueryModule_AccountNumber env ctx addrStr of
        Inl m \<Rightarrow> Inl (Collaborator m)
      | Inr number \<Rightarrow> Inr number)"

text \<open>
  \<^verbatim>\<open>computeSignerData\<close>, lines 83 to 120. The sequence is taken after the address
  and the chain id and before the public key, its packing and the account number; an
  error after line 90 leaves the store as \<^verbatim>\<open>Sequence.Next\<close> wrote it.
\<close>

definition computeSignerData ::
  "'ctx Account \<Rightarrow> 'ctx Env \<Rightarrow> 'ctx \<Rightarrow> Store \<Rightarrow> (error + PubKey \<times> SignerData) \<times> Store" where
  "computeSignerData a env ctx st =
     (case addrCodec a (Whoami env ctx) of
        Inl m \<Rightarrow> (Inl (Collaborator m), st)
      | Inr addrStr \<Rightarrow>
          let chainID = ChainID (hs a ctx) in
          (case Sequence_Next st of
             (Inl err, st') \<Rightarrow> (Inl err, st')
           | (Inr wantSequence, st') \<Rightarrow>
               (case PubKey_Get st' of
                  Inl err \<Rightarrow> (Inl err, st')
                | Inr pk \<Rightarrow>
                    (case NewAnyWithValue env pk of
                       Inl m \<Rightarrow> (Inl (Collaborator m), st')
                     | Inr pkAny \<Rightarrow>
                         (case getNumber env ctx addrStr of
                            Inl err \<Rightarrow> (Inl err, st')
                          | Inr accNum \<Rightarrow>
                              (Inr (pk,
                                 \<lparr>sd_Address = addrStr,
                                  sd_ChainID = chainID,
                                  sd_AccountNumber = accNum,
                                  sd_Sequence = wantSequence,
                                  sd_PubKey = \<lparr>TypeUrl = TypeUrl pkAny, Value = Value pkAny\<rparr>\<rparr>),
                               st'))))))"

text \<open>\<^verbatim>\<open>getTxData\<close>, lines 131 to 153. It reads the request only.\<close>

definition getTxData :: "'ctx Env \<Rightarrow> MsgAuthenticate \<Rightarrow> error + TxData" where
  "getTxData env msg =
     (case Unmarshal_TxBody env (raw_BodyBytes (RawTx msg)) of
        Inl m \<Rightarrow> Inl (Collaborator m)
      | Inr txBody \<Rightarrow>
          (case Unmarshal_AuthInfo env (raw_AuthInfoBytes (RawTx msg)) of
             Inl m \<Rightarrow> Inl (Collaborator m)
           | Inr authInfo \<Rightarrow>
               Inr \<lparr>td_Body = txBody,
                    td_AuthInfo = authInfo,
                    td_BodyBytes = raw_BodyBytes (RawTx msg),
                    td_AuthInfoBytes = raw_AuthInfoBytes (RawTx msg),
                    td_BodyHasUnknownNonCriticals = False\<rparr>))"

text \<open>
  \<^verbatim>\<open>Authenticate\<close>, lines 35 to 72. The two slice reads of lines 50 and 60 have no
  check before them: outside the slice Go panics, after the store was written.
\<close>

definition Authenticate ::
  "'ctx Account \<Rightarrow> 'ctx Env \<Rightarrow> 'ctx \<Rightarrow> Store \<Rightarrow> MsgAuthenticate
     \<Rightarrow> (error + MsgAuthenticateResponse) \<times> Store" where
  "Authenticate a env ctx st msg =
     (if \<not> SenderIsAccountsModule env ctx then (Inl Unauthorized, st)
      else
        (case computeSignerData a env ctx st of
           (Inl err, st') \<Rightarrow> (Inl err, st')
         | (Inr (pubKey, signerData), st') \<Rightarrow>
             (case getTxData env msg of
                Inl err \<Rightarrow> (Inl err, st')
              | Inr txData \<Rightarrow>
                  if \<not> SignerIndex msg < length (SignerInfos (tx_AuthInfo (Tx msg)))
                  then (Inl PanicIndexOutOfRange, st')
                  else
                    let gotSeq = si_Sequence (SignerInfos (tx_AuthInfo (Tx msg)) ! SignerIndex msg) in
                    if gotSeq \<noteq> sd_Sequence signerData
                    then (Inl (SequenceMismatch (sd_Sequence signerData) gotSeq), st')
                    else
                      (case parseSignMode
                              (si_ModeInfo (SignerInfos (tx_AuthInfo (Tx msg)) ! SignerIndex msg)) of
                         Inl err \<Rightarrow> (Inl (UnsupportedSignMode err), st')
                       | Inr signMode \<Rightarrow>
                           if \<not> SignerIndex msg < length (tx_Signatures (Tx msg))
                           then (Inl PanicIndexOutOfRange, st')
                           else
                             let signature = tx_Signatures (Tx msg) ! SignerIndex msg in
                             (case GetSignBytes (signingHandlers a) ctx signMode signerData txData of
                                Inl err \<Rightarrow> (Inl err, st')
                              | Inr signBytes \<Rightarrow>
                                  if \<not> VerifySignature env pubKey signBytes signature
                                  then (Inl SignatureInvalid, st')
                                  else (Inr MsgAuthenticateResponse, st'))))))"

subsection \<open>An account, its collaborators and requests to run the functions on\<close>

text \<open>
  The privileged context is \<open>True\<close>. The one handler, for mode 1
  (\<^verbatim>\<open>SIGN_MODE_DIRECT\<close>), signs the raw body bytes followed by the raw auth-info bytes;
  the verifier accepts the key bytes followed by the sign-bytes. A body of the single
  byte 255 does not decode.
\<close>

definition sample_account :: "bool Account" where
  "sample_account =
     \<lparr>addrCodec = (\<lambda>b. if b = [] then Inl ''empty address'' else Inr ''cosmos1base''),
      hs = (\<lambda>ctx. \<lparr>ChainID = ''test-chain''\<rparr>),
      signingHandlers =
        [1 \<mapsto> (\<lambda>ctx sd td. Inr (td_BodyBytes td @ td_AuthInfoBytes td))]\<rparr>"

definition sample_env :: "bool Env" where
  "sample_env =
     \<lparr>SenderIsAccountsModule = (\<lambda>ctx. ctx),
      Whoami = (\<lambda>ctx. [7, 7]),
      QueryModule_AccountNumber = (\<lambda>ctx addr. Inr 42),
      NewAnyWithValue =
        (\<lambda>pk. Inr \<lparr>TypeUrl = ''/cosmos.crypto.secp256k1.PubKey'', Value = Key pk\<rparr>),
      Unmarshal_TxBody =
        (\<lambda>b. if b = [255] then Inl ''cannot parse invalid wire-format data''
             else Inr \<lparr>Messages = [], Memo = [], body_unknownFields = b\<rparr>),
      Unmarshal_AuthInfo =
        (\<lambda>b. if b = [255] then Inl ''cannot parse invalid wire-format data''
             else Inr \<lparr>dec_SignerInfos = [], dec_unknownFields = b\<rparr>),
      VerifySignature = (\<lambda>pk signBytes sig. sig = Key pk @ signBytes)\<rparr>"

definition sample_store :: "nat \<Rightarrow> Store" where
  "sample_store n = \<lparr>st_PubKey = Some (PubKey [9]), st_Sequence = n\<rparr>"

text \<open>
  A request with one signer: the raw body, the mode descriptor and the claimed
  sequence of the signer-info, the signature, and the signer index.
\<close>

definition sample_msg :: "bytes \<Rightarrow> ModeInfo \<Rightarrow> nat \<Rightarrow> bytes \<Rightarrow> nat \<Rightarrow> MsgAuthenticate" where
  "sample_msg body mode seq sig i =
     \<lparr>Bundler = [],
      RawTx = \<lparr>raw_BodyBytes = body, raw_AuthInfoBytes = [2], raw_Signatures = [sig]\<rparr>,
      Tx = \<lparr>tx_AuthInfo = \<lparr>SignerInfos = [\<lparr>si_ModeInfo = mode, si_Sequence = seq\<rparr>]\<rparr>,
            tx_Signatures = [sig]\<rparr>,
      SignerIndex = i\<rparr>"

text \<open>
  A request whose raw body bytes and raw auth-info bytes are empty: the empty byte
  string is the encoding of a message with no field set, which every protobuf decoder
  accepts. Its \<^verbatim>\<open>Tx\<close> has one signer-info and one signature.
\<close>

definition empty_raw_msg :: "ModeInfo \<Rightarrow> nat \<Rightarrow> bytes \<Rightarrow> nat \<Rightarrow> MsgAuthenticate" where
  "empty_raw_msg mode seq sig i =
     \<lparr>Bundler = [],
      RawTx = \<lparr>raw_BodyBytes = [], raw_AuthInfoBytes = [], raw_Signatures = [sig]\<rparr>,
      Tx = \<lparr>tx_AuthInfo = \<lparr>SignerInfos = [\<lparr>si_ModeInfo = mode, si_Sequence = seq\<rparr>]\<rparr>,
            tx_Signatures = [sig]\<rparr>,
      SignerIndex = i\<rparr>"

section \<open>Properties\<close>

subsection \<open>What the store looks like afterwards\<close>

lemma Sequence_Next_eq:
  "Sequence_Next st = (r, st') \<longleftrightarrow>
     r = Inr (st_Sequence st) \<and> st' = st\<lparr>st_Sequence := st_Sequence st + 1\<rparr>"
  by (auto simp: Sequence_Next_def)

lemma computeSignerData_store:
  "snd (computeSignerData a env ctx st) =
     (case addrCodec a (Whoami env ctx) of
        Inl m \<Rightarrow> st
      | Inr addrStr \<Rightarrow> st\<lparr>st_Sequence := st_Sequence st + 1\<rparr>)"
  by (simp add: computeSignerData_def Sequence_Next_def Let_def split: sum.split)

lemma computeSignerData_Inr:
  assumes "computeSignerData a env ctx st = (Inr (pk, sd), st')"
  shows "sd_Sequence sd = st_Sequence st"
    and "st' = st\<lparr>st_Sequence := st_Sequence st + 1\<rparr>"
    and "st_PubKey st = Some pk"
  using assms
  by (auto simp: computeSignerData_def Sequence_Next_def PubKey_Get_def Let_def
      split: sum.splits option.splits)

lemma Authenticate_store:
  "snd (Authenticate a env ctx st msg) =
     (if SenderIsAccountsModule env ctx then snd (computeSignerData a env ctx st) else st)"
  by (simp add: Authenticate_def Let_def split: sum.split prod.split)

text \<open>The verifier and the decoded \<^verbatim>\<open>Tx\<close> of the request are read by \<^verbatim>\<open>Authenticate\<close> only.\<close>

lemma computeSignerData_VerifySignature:
  "computeSignerData a (env\<lparr>VerifySignature := verify\<rparr>) ctx st = computeSignerData a env ctx st"
  by (simp add: computeSignerData_def getNumber_def Let_def split: sum.split prod.split)

lemma getTxData_reads_RawTx:
  "getTxData (env\<lparr>VerifySignature := verify\<rparr>) (msg\<lparr>Tx := t\<rparr>) = getTxData env msg"
  by (simp add: getTxData_def split: sum.split)

subsection \<open>The flow after assembly and decoding\<close>

text \<open>
  Once the signer data is assembled and the transaction decoded, lines 50 to 71 decide
  in this order: the read of the signer-info, the sequence, the mode, the read of the
  signature, the sign-bytes, the signature.
\<close>

lemma Authenticate_after_decode:
  assumes "SenderIsAccountsModule env ctx"
    and "computeSignerData a env ctx st = (Inr (pk, sd), st')"
    and "getTxData env msg = Inr td"
  shows "Authenticate a env ctx st msg =
     (if \<not> SignerIndex msg < length (SignerInfos (tx_AuthInfo (Tx msg)))
      then (Inl PanicIndexOutOfRange, st')
      else if si_Sequence (SignerInfos (tx_AuthInfo (Tx msg)) ! SignerIndex msg) \<noteq> sd_Sequence sd
      then (Inl (SequenceMismatch (sd_Sequence sd)
                  (si_Sequence (SignerInfos (tx_AuthInfo (Tx msg)) ! SignerIndex msg))), st')
      else
        (case parseSignMode (si_ModeInfo (SignerInfos (tx_AuthInfo (Tx msg)) ! SignerIndex msg)) of
           Inl err \<Rightarrow> (Inl (UnsupportedSignMode err), st')
         | Inr signMode \<Rightarrow>
             if \<not> SignerIndex msg < length (tx_Signatures (Tx msg))
             then (Inl PanicIndexOutOfRange, st')
             else
               (case GetSignBytes (signingHandlers a) ctx signMode sd td of
                  Inl err \<Rightarrow> (Inl err, st')
                | Inr signBytes \<Rightarrow>
                    if \<not> VerifySignature env pk signBytes (tx_Signatures (Tx msg) ! SignerIndex msg)
                    then (Inl SignatureInvalid, st')
                    else (Inr MsgAuthenticateResponse, st'))))"
  using assms by (simp add: Authenticate_def Let_def split: sum.split)

text \<open>A call that succeeds went through every step.\<close>

lemma Authenticate_Inr:
  assumes "Authenticate a env ctx st msg = (Inr r, st')"
  shows "\<exists>pk sd td signMode signBytes.
           SenderIsAccountsModule env ctx
         \<and> computeSignerData a env ctx st = (Inr (pk, sd), st')
         \<and> getTxData env msg = Inr td
         \<and> SignerIndex msg < length (SignerInfos (tx_AuthInfo (Tx msg)))
         \<and> si_Sequence (SignerInfos (tx_AuthInfo (Tx msg)) ! SignerIndex msg) = sd_Sequence sd
         \<and> parseSignMode (si_ModeInfo (SignerInfos (tx_AuthInfo (Tx msg)) ! SignerIndex msg))
             = Inr signMode
         \<and> SignerIndex msg < length (tx_Signatures (Tx msg))
         \<and> GetSignBytes (signingHandlers a) ctx signMode sd td = Inr signBytes
         \<and> VerifySignature env pk signBytes (tx_Signatures (Tx msg) ! SignerIndex msg)"
  using assms
  by (auto simp: Authenticate_def Let_def split: if_splits sum.splits prod.splits)

text \<open>
  When the sign-bytes are there, the verdict is the verifier's: the call succeeds when
  \<^verbatim>\<open>VerifySignature\<close> accepts the signature at the signer index and fails with
  \<open>SignatureInvalid\<close> when it rejects it. Which signatures the verifier accepts is
  decided in package \<^verbatim>\<open>secp256k1\<close>.
\<close>

lemma Authenticate_verdict:
  assumes "SenderIsAccountsModule env ctx"
    and "computeSignerData a env ctx st = (Inr (pk, sd), st')"
    and "getTxData env msg = Inr td"
    and "SignerIndex msg < length (SignerInfos (tx_AuthInfo (Tx msg)))"
    and "si_Sequence (SignerInfos (tx_AuthInfo (Tx msg)) ! SignerIndex msg) = sd_Sequence sd"
    and "parseSignMode (si_ModeInfo (SignerInfos (tx_AuthInfo (Tx msg)) ! SignerIndex msg))
           = Inr signMode"
    and "SignerIndex msg < length (tx_Signatures (Tx msg))"
    and "GetSignBytes (signingHandlers a) ctx signMode sd td = Inr signBytes"
  shows "Authenticate a env ctx st msg =
     (if VerifySignature env pk signBytes (tx_Signatures (Tx msg) ! SignerIndex msg)
      then (Inr MsgAuthenticateResponse, st') else (Inl SignatureInvalid, st'))"
  using assms(4-8) by (simp add: Authenticate_after_decode [OF assms(1-3)])

subsection \<open>Running the functions\<close>

lemmas sample_defs = sample_account_def sample_env_def sample_store_def sample_msg_def

lemmas run_defs = Authenticate_def computeSignerData_def getTxData_def getNumber_def
  Sequence_Next_def PubKey_Get_def GetSignBytes_def

lemma sample_run_success:
  "Authenticate sample_account sample_env True (sample_store 5)
     (sample_msg [1] (ModeInfo_Single 1) 5 [9, 1, 2] 0)
   = (Inr MsgAuthenticateResponse, sample_store 6)"
  by (simp add: run_defs sample_defs)

lemma sample_run_mismatch:
  "Authenticate sample_account sample_env True (sample_store 5)
     (sample_msg [1] (ModeInfo_Single 1) 7 [9, 1, 2] 0)
   = (Inl (SequenceMismatch 5 7), sample_store 6)"
  by (simp add: run_defs sample_defs)

subsection \<open>The caller check\<close>

text \<open>
  C4. A call whose sender is not the accounts module fails with \<open>Unauthorized\<close>, whatever
  the request, and the store is the one it was called with: neither the sequence nor
  the public key is read or written (the result is the same for every store and
  every request).
\<close>

theorem Authenticate_unauthorized:
  assumes "\<not> SenderIsAccountsModule env ctx"
  shows "Authenticate a env ctx st msg = (Inl Unauthorized, st)
    \<and> fst (Authenticate a env ctx st msg) = fst (Authenticate a env ctx st2 msg2)"
  using assms by (simp add: Authenticate_def)

theorem Authenticate_unauthorized_witness:
  "\<not> SenderIsAccountsModule sample_env False
   \<and> Authenticate sample_account sample_env False (sample_store 5)
        (sample_msg [1] (ModeInfo_Single 1) 5 [9, 1, 2] 0)
      = (Inl Unauthorized, sample_store 5)"
  using Authenticate_unauthorized
    [of sample_env False sample_account "sample_store 5"
      "sample_msg [1] (ModeInfo_Single 1) 5 [9, 1, 2] 0"]
  by (simp add: sample_env_def)

subsection \<open>The sequence check\<close>

text \<open>
  C1, as the code has it. For a call by the accounts module with a signer index inside
  the signer-info list, whose signer data was assembled and whose transaction decoded:
  if the sequence claimed in the signer-info at that index differs from the sequence
  just taken from the counter, the call fails with \<open>SequenceMismatch\<close> (wanted the taken
  number, got the claimed one) and the counter stands one higher than before.
\<close>

theorem Authenticate_sequence_mismatch:
  assumes "SenderIsAccountsModule env ctx"
    and "fst (computeSignerData a env ctx st) = Inr (pk, sd)"
    and "getTxData env msg = Inr td"
    and "SignerIndex msg < length (SignerInfos (tx_AuthInfo (Tx msg)))"
    and "si_Sequence (SignerInfos (tx_AuthInfo (Tx msg)) ! SignerIndex msg) \<noteq> st_Sequence st"
  shows "Authenticate a env ctx st msg =
           (Inl (SequenceMismatch (st_Sequence st)
                   (si_Sequence (SignerInfos (tx_AuthInfo (Tx msg)) ! SignerIndex msg))),
            st\<lparr>st_Sequence := st_Sequence st + 1\<rparr>)"
proof -
  obtain st' where c: "computeSignerData a env ctx st = (Inr (pk, sd), st')"
    using assms(2) by (cases "computeSignerData a env ctx st") simp
  note computeSignerData_Inr [OF c]
  then show ?thesis
    using assms by (simp add: Authenticate_after_decode [OF assms(1) c assms(3)])
qed

text \<open>The account at sequence 5 and a request that claims sequence 7.\<close>

theorem Authenticate_sequence_mismatch_witness:
  "SenderIsAccountsModule sample_env True
   \<and> Authenticate sample_account sample_env True (sample_store 5)
        (sample_msg [1] (ModeInfo_Single 1) 7 [9, 1, 2] 0)
      = (Inl (SequenceMismatch 5 7), sample_store 6)"
  using Authenticate_sequence_mismatch [of sample_env True sample_account "sample_store 5" _ _
              "sample_msg [1] (ModeInfo_Single 1) 7 [9, 1, 2] 0"]
  by (simp add: computeSignerData_def getTxData_def getNumber_def
      Sequence_Next_def PubKey_Get_def sample_defs)

text \<open>
  Without the condition on decoding the statement fails. The same account and the same
  wrong sequence 7, with a body that does not decode: line 47 hands back the error of
  \<^verbatim>\<open>proto.Unmarshal\<close> before line 50 compares anything.
\<close>

theorem Authenticate_sequence_mismatch_counterexample:
  "SenderIsAccountsModule sample_env True
   \<and> SignerIndex (sample_msg [255] (ModeInfo_Single 1) 7 [9, 255, 2] 0)
       < length (SignerInfos (tx_AuthInfo (Tx (sample_msg [255] (ModeInfo_Single 1) 7 [9, 255, 2] 0))))
   \<and> si_Sequence (SignerInfos (tx_AuthInfo
          (Tx (sample_msg [255] (ModeInfo_Single 1) 7 [9, 255, 2] 0))) ! 0)
       \<noteq> st_Sequence (sample_store 5)
   \<and> Authenticate sample_account sample_env True (sample_store 5)
        (sample_msg [255] (ModeInfo_Single 1) 7 [9, 255, 2] 0)
      = (Inl (Collaborator ''cannot parse invalid wire-format data''), sample_store 6)"
  by (simp add: run_defs sample_defs)

subsection \<open>The signer index\<close>

text \<open>
  C2, as the code has it. For a call by the accounts module with a signer index
  outside the signer-info list, the call does not authenticate, and the index is looked
  at only after the sequence was taken: the store afterwards is the store before with
  the counter one higher (and the same public key) whenever the address codec
  succeeded, and the store before otherwise.
\<close>

theorem Authenticate_index_out_of_range:
  assumes "SenderIsAccountsModule env ctx"
    and "\<not> SignerIndex msg < length (SignerInfos (tx_AuthInfo (Tx msg)))"
  shows "fst (Authenticate a env ctx st msg) \<noteq> Inr r
    \<and> snd (Authenticate a env ctx st msg) =
        (case addrCodec a (Whoami env ctx) of
           Inl m \<Rightarrow> st
         | Inr addrStr \<Rightarrow> st\<lparr>st_Sequence := st_Sequence st + 1\<rparr>)"
proof
  show "fst (Authenticate a env ctx st msg) \<noteq> Inr r"
  proof
    assume "fst (Authenticate a env ctx st msg) = Inr r"
    then have "Authenticate a env ctx st msg = (Inr r, snd (Authenticate a env ctx st msg))"
      by (metis prod.collapse)
    from Authenticate_Inr [OF this] show False using assms(2) by blast
  qed
  show "snd (Authenticate a env ctx st msg) =
        (case addrCodec a (Whoami env ctx) of
           Inl m \<Rightarrow> st
         | Inr addrStr \<Rightarrow> st\<lparr>st_Sequence := st_Sequence st + 1\<rparr>)"
    using assms(1) by (simp add: Authenticate_store computeSignerData_store)
qed

theorem Authenticate_index_out_of_range_witness:
  "SenderIsAccountsModule sample_env True
   \<and> \<not> SignerIndex (sample_msg [1] (ModeInfo_Single 1) 5 [9, 1, 2] 3)
       < length (SignerInfos (tx_AuthInfo (Tx (sample_msg [1] (ModeInfo_Single 1) 5 [9, 1, 2] 3))))
   \<and> fst (Authenticate sample_account sample_env True (sample_store 5)
        (sample_msg [1] (ModeInfo_Single 1) 5 [9, 1, 2] 3)) \<noteq> Inr MsgAuthenticateResponse
   \<and> snd (Authenticate sample_account sample_env True (sample_store 5)
        (sample_msg [1] (ModeInfo_Single 1) 5 [9, 1, 2] 3)) = sample_store 6"
  using Authenticate_index_out_of_range
    [of sample_env True "sample_msg [1] (ModeInfo_Single 1) 5 [9, 1, 2] 3"
      sample_account "sample_store 5" MsgAuthenticateResponse]
  by (simp add: sample_defs)

text \<open>
  One signer-info and signer index 1, with empty raw body and auth-info bytes, which
  decode (to messages with no field set): lines 40 and 45 succeed, and the read of
  line 50 is outside the slice. The result is the panic, not \<open>MalformedRequest\<close>, and
  the counter went from 5 to 6.
\<close>

theorem Authenticate_index_out_of_range_counterexample:
  "SenderIsAccountsModule sample_env True
   \<and> \<not> SignerIndex (empty_raw_msg (ModeInfo_Single 1) 5 [9] 1)
       < length (SignerInfos (tx_AuthInfo (Tx (empty_raw_msg (ModeInfo_Single 1) 5 [9] 1))))
   \<and> getTxData sample_env (empty_raw_msg (ModeInfo_Single 1) 5 [9] 1)
       = Inr \<lparr>td_Body = \<lparr>Messages = [], Memo = [], body_unknownFields = []\<rparr>,
              td_AuthInfo = \<lparr>dec_SignerInfos = [], dec_unknownFields = []\<rparr>,
              td_BodyBytes = [], td_AuthInfoBytes = [],
              td_BodyHasUnknownNonCriticals = False\<rparr>
   \<and> Authenticate sample_account sample_env True (sample_store 5)
        (empty_raw_msg (ModeInfo_Single 1) 5 [9] 1)
      = (Inl PanicIndexOutOfRange, sample_store 6)
   \<and> PanicIndexOutOfRange \<noteq> MalformedRequest
   \<and> sample_store 6 \<noteq> sample_store 5"
  by (simp add: run_defs sample_defs empty_raw_msg_def)

subsection \<open>The sign mode\<close>

text \<open>
  C5, as the code has it. For a call by the accounts module with a signer index inside
  the signer-info list and the claimed sequence equal to the one taken, whose signer
  data was assembled and whose transaction decoded: if the mode descriptor at that
  index is a multi descriptor, the call fails with \<open>UnsupportedSignMode\<close> and the counter
  one higher, whatever the verifier and whatever the signatures of the request are;
  the signature is never looked at.
\<close>

theorem Authenticate_multi_mode:
  assumes "SenderIsAccountsModule env ctx"
    and "fst (computeSignerData a env ctx st) = Inr (pk, sd)"
    and "getTxData env msg = Inr td"
    and "SignerIndex msg < length (SignerInfos (tx_AuthInfo (Tx msg)))"
    and "si_Sequence (SignerInfos (tx_AuthInfo (Tx msg)) ! SignerIndex msg) = st_Sequence st"
    and "si_ModeInfo (SignerInfos (tx_AuthInfo (Tx msg)) ! SignerIndex msg) = ModeInfo_Multi infos"
  shows "Authenticate a (env\<lparr>VerifySignature := verify\<rparr>) ctx st
           (msg\<lparr>Tx := (Tx msg)\<lparr>tx_Signatures := sigs\<rparr>\<rparr>) =
           (Inl (UnsupportedSignMode OnlySingleAccepted), st\<lparr>st_Sequence := st_Sequence st + 1\<rparr>)"
proof -
  let ?env = "env\<lparr>VerifySignature := verify\<rparr>"
  let ?msg = "msg\<lparr>Tx := (Tx msg)\<lparr>tx_Signatures := sigs\<rparr>\<rparr>"
  obtain st' where c: "computeSignerData a env ctx st = (Inr (pk, sd), st')"
    using assms(2) by (cases "computeSignerData a env ctx st") simp
  have c': "computeSignerData a ?env ctx st = (Inr (pk, sd), st')"
    using c by (simp add: computeSignerData_VerifySignature)
  have d': "getTxData ?env ?msg = Inr td"
    using assms(3) by (simp add: getTxData_reads_RawTx)
  have p: "SenderIsAccountsModule ?env ctx"
    using assms(1) by simp
  note computeSignerData_Inr [OF c]
  then show ?thesis
    using assms(4-6) by (simp add: Authenticate_after_decode [OF p c' d'])
qed

theorem Authenticate_multi_mode_witness:
  "SenderIsAccountsModule sample_env True
   \<and> Authenticate sample_account sample_env True (sample_store 5)
        (sample_msg [1] (ModeInfo_Multi [ModeInfo_Single 1]) 5 [9, 1, 2] 0)
      = (Inl (UnsupportedSignMode OnlySingleAccepted), sample_store 6)"
  using Authenticate_multi_mode [of sample_env True sample_account "sample_store 5" _ _
              "sample_msg [1] (ModeInfo_Multi [ModeInfo_Single 1]) 5 [9, 1, 2] 0" _
              "[ModeInfo_Single 1]" "VerifySignature sample_env" "[[9, 1, 2]]"]
  by (simp add: computeSignerData_def getTxData_def getNumber_def
      Sequence_Next_def PubKey_Get_def sample_defs)

text \<open>
  Without the condition on decoding the statement fails. A multi descriptor and the
  right sequence 5, with a body that does not decode: the error is the one of
  \<^verbatim>\<open>proto.Unmarshal\<close>, from line 47; the mode is not looked at.
\<close>

theorem Authenticate_multi_mode_counterexample:
  "SenderIsAccountsModule sample_env True
   \<and> SignerIndex (sample_msg [255] (ModeInfo_Multi [ModeInfo_Single 1]) 5 [9, 255, 2] 0)
       < length (SignerInfos (tx_AuthInfo
           (Tx (sample_msg [255] (ModeInfo_Multi [ModeInfo_Single 1]) 5 [9, 255, 2] 0))))
   \<and> si_Sequence (SignerInfos (tx_AuthInfo
          (Tx (sample_msg [255] (ModeInfo_Multi [ModeInfo_Single 1]) 5 [9, 255, 2] 0))) ! 0)
       = st_Sequence (sample_store 5)
   \<and> si_ModeInfo (SignerInfos (tx_AuthInfo
          (Tx (sample_msg [255] (ModeInfo_Multi [ModeInfo_Single 1]) 5 [9, 255, 2] 0))) ! 0)
       = ModeInfo_Multi [ModeInfo_Single 1]
   \<and> Authenticate sample_account sample_env True (sample_store 5)
        (sample_msg [255] (ModeInfo_Multi [ModeInfo_Single 1]) 5 [9, 255, 2] 0)
      = (Inl (Collaborator ''cannot parse invalid wire-format data''), sample_store 6)"
  by (simp add: run_defs sample_defs)

text \<open>
  C10. \<^verbatim>\<open>parseSignMode\<close> succeeds on every single descriptor and returns its mode
  number as it is. A mode that no handler is registered for is rejected later: when
  all steps before the sign-bytes succeed, \<^verbatim>\<open>Authenticate\<close> fails with the
  registry's \<open>UnsupportedSignMode\<close> error.
\<close>

theorem parseSignMode_single:
  "parseSignMode (ModeInfo_Single mode) = Inr mode
   \<and> (SenderIsAccountsModule env ctx
      \<and> fst (computeSignerData a env ctx st) = Inr (pk, sd)
      \<and> getTxData env msg = Inr td
      \<and> SignerIndex msg < length (SignerInfos (tx_AuthInfo (Tx msg)))
      \<and> si_Sequence (SignerInfos (tx_AuthInfo (Tx msg)) ! SignerIndex msg) = st_Sequence st
      \<and> si_ModeInfo (SignerInfos (tx_AuthInfo (Tx msg)) ! SignerIndex msg) = ModeInfo_Single mode
      \<and> SignerIndex msg < length (tx_Signatures (Tx msg))
      \<and> signingHandlers a mode = None
      \<longrightarrow> fst (Authenticate a env ctx st msg) = Inl (UnsupportedSignMode (NoHandler mode)))"
proof (intro conjI impI)
  show "parseSignMode (ModeInfo_Single mode) = Inr mode" by simp
next
  assume h: "SenderIsAccountsModule env ctx
      \<and> fst (computeSignerData a env ctx st) = Inr (pk, sd)
      \<and> getTxData env msg = Inr td
      \<and> SignerIndex msg < length (SignerInfos (tx_AuthInfo (Tx msg)))
      \<and> si_Sequence (SignerInfos (tx_AuthInfo (Tx msg)) ! SignerIndex msg) = st_Sequence st
      \<and> si_ModeInfo (SignerInfos (tx_AuthInfo (Tx msg)) ! SignerIndex msg) = ModeInfo_Single mode
      \<and> SignerIndex msg < length (tx_Signatures (Tx msg))
      \<and> signingHandlers a mode = None"
  then obtain st' where c: "computeSignerData a env ctx st = (Inr (pk, sd), st')"
    by (cases "computeSignerData a env ctx st") simp
  have p: "SenderIsAccountsModule env ctx" and d: "getTxData env msg = Inr td"
    using h by simp_all
  note computeSignerData_Inr [OF c]
  then show "fst (Authenticate a env ctx st msg) = Inl (UnsupportedSignMode (NoHandler mode))"
    using h by (simp add: Authenticate_after_decode [OF p c d] GetSignBytes_def)
qed

theorem parseSignMode_single_witness:
  "parseSignMode (ModeInfo_Single 99) = Inr 99
   \<and> signingHandlers sample_account 99 = None
   \<and> fst (Authenticate sample_account sample_env True (sample_store 5)
        (sample_msg [1] (ModeInfo_Single 99) 5 [9, 1, 2] 0)) = Inl (UnsupportedSignMode (NoHandler 99))"
  using parseSignMode_single [of 99 sample_env True sample_account "sample_store 5" _ _
               "sample_msg [1] (ModeInfo_Single 99) 5 [9, 1, 2] 0"]
  by (simp add: computeSignerData_def getTxData_def getNumber_def
      Sequence_Next_def PubKey_Get_def sample_defs)

subsection \<open>The store\<close>

text \<open>
  C6. A call by the accounts module that reaches \<^verbatim>\<open>Sequence.Next\<close> (the address codec
  succeeded) leaves the store with the counter one higher and nothing else changed,
  whatever the result of the call: success, an error handed back, a panic. The public
  key is the one stored before.
\<close>

theorem Authenticate_consumes_one:
  assumes "SenderIsAccountsModule env ctx"
    and "addrCodec a (Whoami env ctx) = Inr addrStr"
  shows "snd (Authenticate a env ctx st msg) = st\<lparr>st_Sequence := st_Sequence st + 1\<rparr>
    \<and> st_PubKey (snd (Authenticate a env ctx st msg)) = st_PubKey st
    \<and> st_Sequence (snd (Authenticate a env ctx st msg)) = st_Sequence st + 1"
  using assms by (simp add: Authenticate_store computeSignerData_store)

text \<open>A wrong signature at the right sequence: \<open>SignatureInvalid\<close>, and the counter at 6.\<close>

theorem Authenticate_consumes_one_witness:
  "SenderIsAccountsModule sample_env True
   \<and> addrCodec sample_account (Whoami sample_env True) = Inr ''cosmos1base''
   \<and> Authenticate sample_account sample_env True (sample_store 5)
        (sample_msg [1] (ModeInfo_Single 1) 5 [9, 1, 3] 0) = (Inl SignatureInvalid, sample_store 6)"
proof -
  have r: "fst (Authenticate sample_account sample_env True (sample_store 5)
        (sample_msg [1] (ModeInfo_Single 1) 5 [9, 1, 3] 0)) = Inl SignatureInvalid"
    by (simp add: run_defs sample_defs)
  have p: "SenderIsAccountsModule sample_env True"
    and c: "addrCodec sample_account (Whoami sample_env True) = Inr ''cosmos1base''"
    by (simp_all add: sample_defs)
  from Authenticate_consumes_one
    [OF p c, of "sample_store 5" "sample_msg [1] (ModeInfo_Single 1) 5 [9, 1, 3] 0"]
  have "snd (Authenticate sample_account sample_env True (sample_store 5)
        (sample_msg [1] (ModeInfo_Single 1) 5 [9, 1, 3] 0)) = sample_store 6"
    by (simp add: sample_store_def)
  with r p c show ?thesis by (simp add: prod_eq_iff)
qed

text \<open>
  C7. Two successful calls on the same account, the second on the store that the first
  left: the signer data of the first carries the sequence n that the counter held, the
  signer data of the second carries n + 1, which is greater.
\<close>

theorem Authenticate_twice:
  assumes "Authenticate a env ctx1 st msg1 = (Inr r1, st1)"
    and "Authenticate a env ctx2 st1 msg2 = (Inr r2, st2)"
  shows "\<exists>pk1 sd1 pk2 sd2.
           computeSignerData a env ctx1 st = (Inr (pk1, sd1), st1)
         \<and> computeSignerData a env ctx2 st1 = (Inr (pk2, sd2), st2)
         \<and> sd_Sequence sd1 = st_Sequence st
         \<and> sd_Sequence sd2 = sd_Sequence sd1 + 1
         \<and> sd_Sequence sd1 < sd_Sequence sd2"
proof -
  from Authenticate_Inr [OF assms(1)] obtain pk1 sd1
    where c1: "computeSignerData a env ctx1 st = (Inr (pk1, sd1), st1)" by blast
  from Authenticate_Inr [OF assms(2)] obtain pk2 sd2
    where c2: "computeSignerData a env ctx2 st1 = (Inr (pk2, sd2), st2)" by blast
  have "sd_Sequence sd1 = st_Sequence st" and "st_Sequence st1 = st_Sequence st + 1"
    using computeSignerData_Inr [OF c1] by simp_all
  moreover have "sd_Sequence sd2 = st_Sequence st1"
    using computeSignerData_Inr [OF c2] by simp
  ultimately show ?thesis using c1 c2 by simp
qed

theorem Authenticate_twice_witness:
  "Authenticate sample_account sample_env True (sample_store 5)
     (sample_msg [1] (ModeInfo_Single 1) 5 [9, 1, 2] 0) = (Inr MsgAuthenticateResponse, sample_store 6)
   \<and> Authenticate sample_account sample_env True (sample_store 6)
     (sample_msg [3] (ModeInfo_Single 1) 6 [9, 3, 2] 0) = (Inr MsgAuthenticateResponse, sample_store 7)
   \<and> (\<exists>pk1 sd1 pk2 sd2.
         computeSignerData sample_account sample_env True (sample_store 5)
           = (Inr (pk1, sd1), sample_store 6)
       \<and> computeSignerData sample_account sample_env True (sample_store 6)
           = (Inr (pk2, sd2), sample_store 7)
       \<and> sd_Sequence sd1 = 5 \<and> sd_Sequence sd2 = 6)"
proof -
  have h1: "Authenticate sample_account sample_env True (sample_store 5)
     (sample_msg [1] (ModeInfo_Single 1) 5 [9, 1, 2] 0) = (Inr MsgAuthenticateResponse, sample_store 6)"
    by (simp add: run_defs sample_defs)
  have h2: "Authenticate sample_account sample_env True (sample_store 6)
     (sample_msg [3] (ModeInfo_Single 1) 6 [9, 3, 2] 0) = (Inr MsgAuthenticateResponse, sample_store 7)"
    by (simp add: run_defs sample_defs)
  have "st_Sequence (sample_store 5) = 5" by (simp add: sample_store_def)
  with Authenticate_twice [OF h1 h2] h1 h2 show ?thesis by auto
qed

subsection \<open>The transaction data\<close>

text \<open>
  C8. When the raw body bytes and the raw auth-info bytes of the request decode,
  \<^verbatim>\<open>getTxData\<close> returns a \<open>TxData\<close> whose \<open>BodyBytes\<close> and \<open>AuthInfoBytes\<close> are these raw
  bytes themselves, and this \<open>TxData\<close> is the one the handlers are asked with: a handler
  map that answers as the account's does at this \<open>TxData\<close> gives the same result of
  \<^verbatim>\<open>Authenticate\<close>.
\<close>

theorem getTxData_raw_bytes:
  assumes "Unmarshal_TxBody env (raw_BodyBytes (RawTx msg)) = Inr txBody"
    and "Unmarshal_AuthInfo env (raw_AuthInfoBytes (RawTx msg)) = Inr authInfo"
  shows "\<exists>td. getTxData env msg = Inr td
    \<and> td_BodyBytes td = raw_BodyBytes (RawTx msg)
    \<and> td_AuthInfoBytes td = raw_AuthInfoBytes (RawTx msg)
    \<and> (\<forall>h. (\<forall>signMode sd. GetSignBytes h ctx signMode sd td
                  = GetSignBytes (signingHandlers a) ctx signMode sd td)
          \<longrightarrow> Authenticate (a\<lparr>signingHandlers := h\<rparr>) env ctx st msg
                = Authenticate a env ctx st msg)"
proof -
  let ?td = "\<lparr>td_Body = txBody, td_AuthInfo = authInfo,
              td_BodyBytes = raw_BodyBytes (RawTx msg),
              td_AuthInfoBytes = raw_AuthInfoBytes (RawTx msg),
              td_BodyHasUnknownNonCriticals = False\<rparr>"
  have d: "getTxData env msg = Inr ?td"
    using assms by (simp add: getTxData_def)
  have "Authenticate (a\<lparr>signingHandlers := h\<rparr>) env ctx st msg = Authenticate a env ctx st msg"
    if "\<forall>signMode sd. GetSignBytes h ctx signMode sd ?td
          = GetSignBytes (signingHandlers a) ctx signMode sd ?td" for h
  proof -
    have c: "computeSignerData (a\<lparr>signingHandlers := h\<rparr>) env ctx st = computeSignerData a env ctx st"
      by (simp add: computeSignerData_def Let_def split: sum.split prod.split)
    show ?thesis
      using that by (simp add: Authenticate_def c d Let_def split: sum.split prod.split)
  qed
  with d show ?thesis by simp
qed

theorem getTxData_raw_bytes_witness:
  "Unmarshal_TxBody sample_env
       (raw_BodyBytes (RawTx (sample_msg [1, 0, 1] (ModeInfo_Single 1) 5 [] 0)))
     = Inr \<lparr>Messages = [], Memo = [], body_unknownFields = [1, 0, 1]\<rparr>
   \<and> Unmarshal_AuthInfo sample_env
       (raw_AuthInfoBytes (RawTx (sample_msg [1, 0, 1] (ModeInfo_Single 1) 5 [] 0)))
     = Inr \<lparr>dec_SignerInfos = [], dec_unknownFields = [2]\<rparr>
   \<and> (\<exists>td. getTxData sample_env (sample_msg [1, 0, 1] (ModeInfo_Single 1) 5 [] 0) = Inr td
         \<and> td_BodyBytes td = [1, 0, 1] \<and> td_AuthInfoBytes td = [2])"
proof -
  have h1: "Unmarshal_TxBody sample_env
       (raw_BodyBytes (RawTx (sample_msg [1, 0, 1] (ModeInfo_Single 1) 5 [] 0)))
     = Inr \<lparr>Messages = [], Memo = [], body_unknownFields = [1, 0, 1]\<rparr>"
    by (simp add: sample_defs)
  have h2: "Unmarshal_AuthInfo sample_env
       (raw_AuthInfoBytes (RawTx (sample_msg [1, 0, 1] (ModeInfo_Single 1) 5 [] 0)))
     = Inr \<lparr>dec_SignerInfos = [], dec_unknownFields = [2]\<rparr>"
    by (simp add: sample_defs)
  from getTxData_raw_bytes [OF h1 h2, of True sample_account "sample_store 5"]
  obtain td where "getTxData sample_env (sample_msg [1, 0, 1] (ModeInfo_Single 1) 5 [] 0) = Inr td"
    and "td_BodyBytes td = raw_BodyBytes (RawTx (sample_msg [1, 0, 1] (ModeInfo_Single 1) 5 [] 0))"
    and "td_AuthInfoBytes td
           = raw_AuthInfoBytes (RawTx (sample_msg [1, 0, 1] (ModeInfo_Single 1) 5 [] 0))"
    by blast
  then show ?thesis using h1 h2 by (simp add: sample_msg_def)
qed

text \<open>
  C9. Every \<open>TxData\<close> that \<^verbatim>\<open>getTxData\<close> returns has \<open>BodyHasUnknownNonCriticals\<close> false,
  whatever the decoded body holds.
\<close>

theorem getTxData_no_unknown_non_criticals:
  assumes "getTxData env msg = Inr td"
  shows "td_BodyHasUnknownNonCriticals td = False"
  using assms by (auto simp: getTxData_def split: sum.splits)

text \<open>A decoded body with unknown fields, and the flag false.\<close>

theorem getTxData_no_unknown_non_criticals_witness:
  "getTxData sample_env (sample_msg [1, 0, 1] (ModeInfo_Single 1) 5 [] 0)
     = Inr \<lparr>td_Body = \<lparr>Messages = [], Memo = [], body_unknownFields = [1, 0, 1]\<rparr>,
            td_AuthInfo = \<lparr>dec_SignerInfos = [], dec_unknownFields = [2]\<rparr>,
            td_BodyBytes = [1, 0, 1], td_AuthInfoBytes = [2],
            td_BodyHasUnknownNonCriticals = False\<rparr>
   \<and> body_unknownFields (td_Body
        \<lparr>td_Body = \<lparr>Messages = [], Memo = [], body_unknownFields = [1, 0, 1]\<rparr>,
         td_AuthInfo = \<lparr>dec_SignerInfos = [], dec_unknownFields = [2]\<rparr>,
         td_BodyBytes = [1, 0, 1], td_AuthInfoBytes = [2],
         td_BodyHasUnknownNonCriticals = False\<rparr>) \<noteq> []"
  using getTxData_no_unknown_non_criticals
    [of sample_env "sample_msg [1, 0, 1] (ModeInfo_Single 1) 5 [] 0"]
  by (simp add: getTxData_def sample_defs)

end
